theory Spec2Isabelle
  imports Main "HOL-Library.Sublist"
begin

section \<open>Dependency analysis of a Go repository: the program as HOL functions\<close>

text \<open>
  The file \<^verbatim>\<open>src/main.go\<close> holds two listings of the program. The second one
  (lines 150 to 338) is the one with the platform switch, the line-ending normalisation
  and the \<^verbatim>\<open>"unknown"\<close> default; the functions below are translated from it and keep
  its names. Where the first listing (lines 1 to 149) differs in a way that matters, its
  function is translated too, with the suffix \<open>_1\<close>.

  Every call the program makes to the outside (the file system, the two child processes,
  the \<^verbatim>\<open>modfile\<close> parser, the JSON decoder, \<^verbatim>\<open>filepath.Join\<close>) is a parameter of the
  function that makes it: the value the call returns is an input of the model.
\<close>

subsection \<open>Errors\<close>

text \<open>
  Go's \<^verbatim>\<open>error\<close> values. \<open>External\<close> is an error handed back by the operating system or
  a library, with its text; every other constructor is the text of a \<^verbatim>\<open>fmt.Errorf\<close> call
  of the program, wrapping the cause where the format has a \<^verbatim>\<open>%v\<close>. Two calls with the
  same text give the same error: \<open>GoModNotFound\<close> is \<^verbatim>\<open>could not find go.mod\<close>, which the
  first listing returns from \<^verbatim>\<open>findGoMod\<close> (line 89) and from \<^verbatim>\<open>parseGoMod\<close> (line 105).
\<close>

datatype error =
    External string
  | CreateTempDirFailed error
  | RemoveFailedAfter3Attempts
  | CloneFailed error
  | GoModNotFoundIn string
  | GoModNotFound
  | ReadGoModFailed error
  | ParseGoModFailed error
  | ModuleDeclarationNotFound
  | GoCommandNotFound error
  | ListDependenciesFailed error
  | DecodeDependenciesFailed error

subsection \<open>The string functions the program calls\<close>

abbreviation LF :: char where "LF \<equiv> CHR 0x0A"
abbreviation CR :: char where "CR \<equiv> CHR 0x0D"

text \<open>\<^verbatim>\<open>strings.HasPrefix(s, p)\<close> and \<^verbatim>\<open>strings.Contains(s, sub)\<close>, on byte strings.\<close>

definition HasPrefix :: "string \<Rightarrow> string \<Rightarrow> bool" where
  "HasPrefix s p = prefix p s"

fun Contains :: "string \<Rightarrow> string \<Rightarrow> bool" where
  "Contains [] sub = (sub = [])"
| "Contains (c # s) sub = (prefix sub (c # s) \<or> Contains s sub)"

text \<open>
  \<^verbatim>\<open>strings.ReplaceAll(s, old, new)\<close> for a non-empty \<open>old\<close>: the matches are taken
  from left to right and do not overlap. (The program never passes an empty \<open>old\<close>, for
  which Go inserts \<open>new\<close> around every rune; the model leaves \<open>s\<close> as it is there.)
\<close>

function ReplaceAll :: "string \<Rightarrow> string \<Rightarrow> string \<Rightarrow> string" where
  "ReplaceAll [] old new = []"
| "ReplaceAll (c # s) old new =
     (if old \<noteq> [] \<and> prefix old (c # s)
      then new @ ReplaceAll (drop (length old) (c # s)) old new
      else c # ReplaceAll s old new)"
  by pat_completeness auto
termination
  by (relation "measure (\<lambda>(s, old, new). length s)") auto

subsection \<open>Manifest parser: \<^verbatim>\<open>parseGoMod\<close>\<close>

text \<open>
  What the program reads of \<^verbatim>\<open>modfile.File\<close>: \<open>Module\<close> is \<open>None\<close> for a nil
  \<^verbatim>\<open>modFile.Module\<close> and otherwise holds \<^verbatim>\<open>Module.Mod.Path\<close>; \<open>Go\<close> is \<open>None\<close> for a nil
  \<^verbatim>\<open>modFile.Go\<close> and otherwise holds \<^verbatim>\<open>Go.Version\<close>.
\<close>

record modfile_File =
  Module :: "string option"
  Go :: "string option"

text \<open>
  \<^verbatim>\<open>os.ReadFile\<close> and \<^verbatim>\<open>modfile.Parse\<close> (a library outside the repository) are the
  parameters \<open>ReadFile\<close> and \<open>Parse\<close>. The result is the pair (module path, Go version).
\<close>

definition parseGoMod ::
  "(string \<Rightarrow> error + string) \<Rightarrow> (string \<Rightarrow> string \<Rightarrow> error + modfile_File) \<Rightarrow>
   string \<Rightarrow> error + string \<times> string" where
  "parseGoMod ReadFile Parse goModPath =
     (case ReadFile goModPath of
        Inl err \<Rightarrow> Inl (ReadGoModFailed err)
      | Inr data \<Rightarrow>
          (case Parse goModPath (ReplaceAll data [CR, LF] [LF]) of
             Inl err \<Rightarrow> Inl (ParseGoModFailed err)
           | Inr modFile \<Rightarrow>
               (case Module modFile of
                  None \<Rightarrow> Inl ModuleDeclarationNotFound
                | Some modulePath \<Rightarrow>
                    Inr (modulePath,
                         (case Go modFile of None \<Rightarrow> ''unknown'' | Some v \<Rightarrow> v)))))"

text \<open>
  The vocabulary of the line-ending property: \<open>crlf_version t\<close> is the text \<open>t\<close> with every
  line feed written as carriage return, line feed; \<open>has_crlf t\<close> says that \<open>t\<close> holds a
  carriage return directly followed by a line feed, so a text with LF line endings is one
  with \<open>\<not> has_crlf t\<close>.
\<close>

fun crlf_version :: "string \<Rightarrow> string" where
  "crlf_version [] = []"
| "crlf_version (c # s) = (if c = LF then CR # LF # crlf_version s else c # crlf_version s)"

fun has_crlf :: "string \<Rightarrow> bool" where
  "has_crlf (c # d # s) = ((c = CR \<and> d = LF) \<or> has_crlf (d # s))"
| "has_crlf s = False"

text \<open>
  The first listing (lines 94 to 109) parses the bytes as they are read, returns
  \<^verbatim>\<open>could not find go.mod\<close> for a nil \<^verbatim>\<open>modFile.Module\<close>, and reads
  \<^verbatim>\<open>modFile.Go.Version\<close> with no test of \<^verbatim>\<open>modFile.Go\<close>: for a nil pointer that is a
  run-time panic, which is not a value the function returns. \<open>Panics\<close> is that outcome.
\<close>

datatype 'a outcome = Returns 'a | Panics string

definition parseGoMod_1 ::
  "(string \<Rightarrow> error + string) \<Rightarrow> (string \<Rightarrow> string \<Rightarrow> error + modfile_File) \<Rightarrow>
   string \<Rightarrow> (error + string \<times> string) outcome" where
  "parseGoMod_1 ReadFile Parse goModPath =
     (case ReadFile goModPath of
        Inl err \<Rightarrow> Returns (Inl (ReadGoModFailed err))
      | Inr data \<Rightarrow>
          (case Parse goModPath data of
             Inl err \<Rightarrow> Returns (Inl (ParseGoModFailed err))
           | Inr modFile \<Rightarrow>
               (case Module modFile of
                  None \<Rightarrow> Returns (Inl GoModNotFound)
                | Some modulePath \<Rightarrow>
                    (case Go modFile of
                       None \<Rightarrow> Panics ''invalid memory address or nil pointer dereference''
                     | Some v \<Rightarrow> Returns (Inr (modulePath, v))))))"

text \<open>
  A parser for the examples: it knows the manifest of the specification's first end-to-end
  scenario, one manifest with no \<^verbatim>\<open>go\<close> directive and one with no \<^verbatim>\<open>module\<close> line.
\<close>

definition example_Parse :: "string \<Rightarrow> string \<Rightarrow> error + modfile_File" where
  "example_Parse file data =
     (if data = ''module example.com/foo\<newline>go 1.21\<newline>''
      then Inr \<lparr>Module = Some ''example.com/foo'', Go = Some ''1.21''\<rparr>
      else if data = ''module example.com/foo\<newline>''
      then Inr \<lparr>Module = Some ''example.com/foo'', Go = None\<rparr>
      else if data = ''go 1.21\<newline>''
      then Inr \<lparr>Module = None, Go = Some ''1.21''\<rparr>
      else Inl (External ''syntax error''))"

subsection \<open>Dependency reporter: \<^verbatim>\<open>getDependencies\<close>\<close>

text \<open>
  \<^verbatim>\<open>ModuleInfo\<close>; its anonymous \<^verbatim>\<open>Update\<close> struct is the record \<open>UpdateInfo\<close>, and the nil
  pointer is \<open>None\<close>.
\<close>

record UpdateInfo =
  UpdatePath :: string
  UpdateVersion :: string

record ModuleInfo =
  Path :: string
  Version :: string
  Update :: "UpdateInfo option"

text \<open>
  \<^verbatim>\<open>filepath.Separator\<close> and \<^verbatim>\<open>filepath.ToSlash\<close>, which depend on the platform
  (\<^verbatim>\<open>runtime.GOOS\<close>).
\<close>

definition Separator :: "string \<Rightarrow> char" where
  "Separator GOOS = (if GOOS = ''windows'' then CHR 0x5C else CHR ''/'')"

definition ToSlash :: "string \<Rightarrow> string \<Rightarrow> string" where
  "ToSlash GOOS path =
     (if Separator GOOS = CHR ''/'' then path else ReplaceAll path [Separator GOOS] ''/'')"

text \<open>
  \<^verbatim>\<open>os.IsPathSeparator\<close>, and \<^verbatim>\<open>joinPath\<close> of package \<^verbatim>\<open>os\<close>, with which
  \<^verbatim>\<open>os.MkdirTemp\<close> puts the pattern behind the directory.
\<close>

definition IsPathSeparator :: "string \<Rightarrow> char \<Rightarrow> bool" where
  "IsPathSeparator GOOS c =
     (if GOOS = ''windows'' then c = CHR 0x5C \<or> c = CHR ''/'' else c = CHR ''/'')"

definition joinPath :: "string \<Rightarrow> string \<Rightarrow> string \<Rightarrow> string" where
  "joinPath GOOS dir name =
     (if length dir > 0 \<and> IsPathSeparator GOOS (last dir) then dir @ name
      else dir @ [Separator GOOS] @ name)"

text \<open>
  \<^verbatim>\<open>filepath.Join\<close> is a parameter \<open>Join\<close> of the functions that call it, applied to a
  directory and one name. For the platforms whose only separator is the slash and whose
  paths have no volume name (Linux and the other Unix systems), \<open>Join_unix\<close> is that
  function: the two elements joined by a slash and cleaned by \<^verbatim>\<open>filepath.Clean\<close>.

  \<open>Clean_unix\<close> follows the loop of \<^verbatim>\<open>Clean\<close>: \<open>path\<close> is what is left to read, \<open>out\<close> the
  buffer written so far, \<open>dotdot\<close> the length of the buffer below which a \<^verbatim>\<open>..\<close> must
  not remove anything. \<open>backtrack\<close> is the step for a \<^verbatim>\<open>..\<close> that can remove an element:
  the buffer loses its last byte, and then bytes down to and with the last slash, as long
  as it stays longer than \<open>dotdot\<close>.
\<close>

function backtrack :: "string \<Rightarrow> nat \<Rightarrow> string" where
  "backtrack out dotdot =
     (if length out - 1 > dotdot \<and> last out \<noteq> CHR ''/''
      then backtrack (butlast out) dotdot
      else butlast out)"
  by pat_completeness auto
termination
  by (relation "measure (\<lambda>(out, dotdot). length out)") auto

function clean_loop :: "bool \<Rightarrow> string \<Rightarrow> string \<Rightarrow> nat \<Rightarrow> string" where
  "clean_loop rooted [] out dotdot = out"
| "clean_loop rooted (c # path) out dotdot =
     (if c = CHR ''/'' then clean_loop rooted path out dotdot
      else if c = CHR ''.'' \<and> (path = [] \<or> take 1 path = ''/'')
      then clean_loop rooted path out dotdot
      else if c = CHR ''.'' \<and> take 1 path = ''.'' \<and>
              (drop 1 path = [] \<or> take 1 (drop 1 path) = ''/'')
      then (if length out > dotdot
            then clean_loop rooted (drop 1 path) (backtrack out dotdot) dotdot
            else if \<not> rooted
            then clean_loop rooted (drop 1 path)
                   ((if length out > 0 then out @ ''/'' else out) @ ''..'')
                   (length ((if length out > 0 then out @ ''/'' else out) @ ''..''))
            else clean_loop rooted (drop 1 path) out dotdot)
      else clean_loop rooted (dropWhile (\<lambda>x. x \<noteq> CHR ''/'') path)
             ((if rooted \<and> length out \<noteq> 1 \<or> \<not> rooted \<and> length out \<noteq> 0
               then out @ ''/'' else out) @ c # takeWhile (\<lambda>x. x \<noteq> CHR ''/'') path)
             dotdot)"
  by pat_completeness auto
termination
  by (relation "measure (\<lambda>(rooted, path, out, dotdot). length path)")
     (auto simp: length_dropWhile_le le_imp_less_Suc)

definition Clean_unix :: "string \<Rightarrow> string" where
  "Clean_unix path =
     (if path = [] then ''.''
      else if take 1 path = ''/''
      then clean_loop True (drop 1 path) ''/'' 1
      else (case clean_loop False path [] 0 of [] \<Rightarrow> ''.'' | c # out \<Rightarrow> c # out))"

definition Join_unix :: "string \<Rightarrow> string \<Rightarrow> string" where
  "Join_unix dir name =
     (if dir \<noteq> [] then Clean_unix (dir @ ''/'' @ name)
      else if name \<noteq> [] then Clean_unix name
      else [])"

text \<open>
  The captured standard output as the \<^verbatim>\<open>json.Decoder\<close> hands it out: the list of the
  results of the successive \<^verbatim>\<open>dec.Decode(&m)\<close> calls, a decoded \<^verbatim>\<open>ModuleInfo\<close> or the
  decoding error. \<^verbatim>\<open>dec.More()\<close> is true as long as the list is not empty. The loop
  carries \<open>deps\<close>, the slice it appends to.
\<close>

fun decode_loop ::
  "string \<Rightarrow> string \<Rightarrow> (error + ModuleInfo) list \<Rightarrow> ModuleInfo list \<Rightarrow> error + ModuleInfo list" where
  "decode_loop GOOS dir [] deps = Inr deps"
| "decode_loop GOOS dir (Inl err # out) deps = Inl (DecodeDependenciesFailed err)"
| "decode_loop GOOS dir (Inr m # out) deps =
     (let normalizedPath = ToSlash GOOS (Path m);
          normalizedDir = ToSlash GOOS dir
      in if \<not> HasPrefix normalizedPath ''.'' \<and> \<not> HasPrefix normalizedPath ''/'' \<and>
            \<not> Contains normalizedPath normalizedDir
         then decode_loop GOOS dir out (deps @ [m])
         else decode_loop GOOS dir out deps)"

text \<open>
  \<open>LookPath_go\<close> is the error of \<^verbatim>\<open>exec.LookPath("go")\<close>, if any; \<open>go_list dir\<close> is the
  outcome of running \<^verbatim>\<open>go list -m -u -json all\<close> in \<open>dir\<close>: the error of \<^verbatim>\<open>cmd.Run()\<close> or
  the captured output.
\<close>

definition getDependencies ::
  "string \<Rightarrow> error option \<Rightarrow> (string \<Rightarrow> error + (error + ModuleInfo) list) \<Rightarrow> string \<Rightarrow>
   error + ModuleInfo list" where
  "getDependencies GOOS LookPath_go go_list dir =
     (case LookPath_go of
        Some err \<Rightarrow> Inl (GoCommandNotFound err)
      | None \<Rightarrow>
          (case go_list dir of
             Inl err \<Rightarrow> Inl (ListDependenciesFailed err)
           | Inr out \<Rightarrow> decode_loop GOOS dir out []))"

text \<open>The first listing (lines 111 to 134): no look-up of the command, errors unwrapped,
  and the test in the loop is \<^verbatim>\<open>m.Update != nil\<close>.\<close>

fun decode_loop_1 :: "(error + ModuleInfo) list \<Rightarrow> ModuleInfo list \<Rightarrow> error + ModuleInfo list" where
  "decode_loop_1 [] deps = Inr deps"
| "decode_loop_1 (Inl err # out) deps = Inl err"
| "decode_loop_1 (Inr m # out) deps =
     (if Update m \<noteq> None then decode_loop_1 out (deps @ [m]) else decode_loop_1 out deps)"

definition getDependencies_1 ::
  "(string \<Rightarrow> error + (error + ModuleInfo) list) \<Rightarrow> string \<Rightarrow> error + ModuleInfo list" where
  "getDependencies_1 go_list dir =
     (case go_list dir of Inl err \<Rightarrow> Inl err | Inr out \<Rightarrow> decode_loop_1 out [])"

text \<open>
  The condition the specification puts on a record of the report: the update
  is present, and the import path, with forward slashes, starts with neither \<^verbatim>\<open>.\<close> nor
  \<^verbatim>\<open>/\<close> and does not contain the workspace directory, with forward slashes.
\<close>

definition reportable :: "string \<Rightarrow> string \<Rightarrow> ModuleInfo \<Rightarrow> bool" where
  "reportable GOOS dir m =
     (Update m \<noteq> None \<and>
      \<not> HasPrefix (ToSlash GOOS (Path m)) ''.'' \<and> \<not> HasPrefix (ToSlash GOOS (Path m)) ''/'' \<and>
      \<not> Contains (ToSlash GOOS (Path m)) (ToSlash GOOS dir))"

subsection \<open>Result printer: \<^verbatim>\<open>printResults\<close>\<close>

text \<open>
  The function returns the bytes it writes to standard output. \<open>print_deps\<close> is the
  \<^verbatim>\<open>for _, dep := range deps\<close> loop.
\<close>

fun print_deps :: "ModuleInfo list \<Rightarrow> string" where
  "print_deps [] = []"
| "print_deps (dep # deps) =
     (case Update dep of
        Some u \<Rightarrow> ''- '' @ Path dep @ '': '' @ Version dep @ '' -> '' @ UpdateVersion u @ [LF]
      | None \<Rightarrow> []) @ print_deps deps"

definition printResults :: "string \<Rightarrow> string \<Rightarrow> ModuleInfo list \<Rightarrow> string" where
  "printResults moduleName goVersion deps =
     ''Module: '' @ moduleName @ [LF] @
     ''Go Module Version: '' @ goVersion @ [LF] @
     (if length deps > 0
      then ''Dependencies that can be updated:'' @ [LF] @ print_deps deps
      else ''All dependencies are up to date.'' @ [LF])"

text \<open>
  The output the specification describes, as a list of lines; \<open>unlines\<close> ends each line
  with a line feed.
\<close>

definition unlines :: "string list \<Rightarrow> string" where
  "unlines ls = concat (map (\<lambda>l. l @ [LF]) ls)"

definition record_lines :: "ModuleInfo list \<Rightarrow> string list" where
  "record_lines records =
     concat (map (\<lambda>r. case Update r of
                         Some u \<Rightarrow> [''- '' @ Path r @ '': '' @ Version r @ '' -> '' @ UpdateVersion u]
                       | None \<Rightarrow> []) records)"

definition render :: "string \<Rightarrow> string \<Rightarrow> ModuleInfo list \<Rightarrow> string list" where
  "render name toolchainVersion records =
     [''Module: '' @ name, ''Go Module Version: '' @ toolchainVersion] @
     (if records \<noteq> []
      then ''Dependencies that can be updated:'' # record_lines records
      else [''All dependencies are up to date.''])"

subsection \<open>Manifest locator: \<^verbatim>\<open>filepath.Walk\<close> and \<^verbatim>\<open>findGoMod\<close>\<close>

text \<open>
  The file tree under the directory that is walked. A node carries its own name.
  \<open>File\<close> is anything that is not a directory; \<open>Dir\<close> lists its entries in the order
  \<^verbatim>\<open>readDirNames\<close> returns them (sorted by name); \<open>Unreadable\<close> is a directory whose
  listing fails with the given error; \<open>NoStat\<close> is an entry whose \<^verbatim>\<open>lstat\<close> fails. \<open>lstat\<close>
  gives the \<^verbatim>\<open>FileInfo\<close> of a node; of a \<open>NoStat\<close> entry only the name is used, which
  the listing of its directory knows.
\<close>

datatype node =
    File string
  | Dir string "node list"
  | Unreadable string error
  | NoStat string error

record FileInfo =
  Name :: string
  IsDir :: bool

fun lstat :: "node \<Rightarrow> FileInfo" where
  "lstat (File n) = \<lparr>Name = n, IsDir = False\<rparr>"
| "lstat (Dir n entries) = \<lparr>Name = n, IsDir = True\<rparr>"
| "lstat (Unreadable n err) = \<lparr>Name = n, IsDir = True\<rparr>"
| "lstat (NoStat n err) = \<lparr>Name = n, IsDir = False\<rparr>"

text \<open>
  What a \<^verbatim>\<open>WalkFunc\<close> returns: nil, the sentinels \<^verbatim>\<open>filepath.SkipDir\<close> and
  \<^verbatim>\<open>filepath.SkipAll\<close>, or another error.
\<close>

datatype walk_ret = NilErr | SkipDir | SkipAll | Failure error

text \<open>
  \<^verbatim>\<open>filepath.walk\<close> and \<^verbatim>\<open>filepath.Walk\<close> of Go's standard library, with
  \<^verbatim>\<open>filepath.Join\<close> as the parameter \<open>Join\<close>. The callback
  \<open>walkFn\<close> takes the state of the variables it closes over and returns the new state
  with its result. \<open>walk\<close> is called on a node whose \<^verbatim>\<open>lstat\<close> succeeded; \<open>walk_names\<close> is
  the loop \<^verbatim>\<open>for _, name := range names\<close> over the entries of a directory:
  \<^item> a callback result other than nil on a directory ends the walk of that directory and
    is handed to the caller;
  \<^item> in the loop, \<^verbatim>\<open>SkipDir\<close> from a directory (or from the callback on an entry that
    could not be examined) goes on with the next name, and any other non-nil result,
    also \<^verbatim>\<open>SkipDir\<close> from a file, ends the loop and is handed to the caller;
  \<^item> \<open>Walk\<close> turns \<^verbatim>\<open>SkipDir\<close> and \<^verbatim>\<open>SkipAll\<close> into nil.
\<close>

fun walk ::
  "(string \<Rightarrow> string \<Rightarrow> string) \<Rightarrow>
   ('s \<Rightarrow> string \<Rightarrow> FileInfo option \<Rightarrow> error option \<Rightarrow> 's \<times> walk_ret) \<Rightarrow>
   string \<Rightarrow> node \<Rightarrow> 's \<Rightarrow> 's \<times> walk_ret"
and walk_names ::
  "(string \<Rightarrow> string \<Rightarrow> string) \<Rightarrow>
   ('s \<Rightarrow> string \<Rightarrow> FileInfo option \<Rightarrow> error option \<Rightarrow> 's \<times> walk_ret) \<Rightarrow>
   string \<Rightarrow> node list \<Rightarrow> 's \<Rightarrow> 's \<times> walk_ret" where
  "walk Join walkFn path (File n) s = walkFn s path (Some (lstat (File n))) None"
| "walk Join walkFn path (Unreadable n err) s =
     walkFn s path (Some (lstat (Unreadable n err))) (Some err)"
| "walk Join walkFn path (Dir n entries) s =
     (case walkFn s path (Some (lstat (Dir n entries))) None of
        (s', NilErr) \<Rightarrow> walk_names Join walkFn path entries s'
      | (s', err1) \<Rightarrow> (s', err1))"
| "walk Join walkFn path (NoStat n err) s = walkFn s path None (Some err)"
| "walk_names Join walkFn path [] s = (s, NilErr)"
| "walk_names Join walkFn path (NoStat n err # names) s =
     (case walkFn s (Join path n) None (Some err) of
        (s', NilErr) \<Rightarrow> walk_names Join walkFn path names s'
      | (s', SkipDir) \<Rightarrow> walk_names Join walkFn path names s'
      | (s', err') \<Rightarrow> (s', err'))"
| "walk_names Join walkFn path (entry # names) s =
     (case walk Join walkFn (Join path (Name (lstat entry))) entry s of
        (s', NilErr) \<Rightarrow> walk_names Join walkFn path names s'
      | (s', SkipDir) \<Rightarrow>
          if IsDir (lstat entry) then walk_names Join walkFn path names s' else (s', SkipDir)
      | (s', err') \<Rightarrow> (s', err'))"

definition Walk ::
  "(string \<Rightarrow> string \<Rightarrow> string) \<Rightarrow> node \<Rightarrow> string \<Rightarrow>
   ('s \<Rightarrow> string \<Rightarrow> FileInfo option \<Rightarrow> error option \<Rightarrow> 's \<times> walk_ret) \<Rightarrow> 's \<Rightarrow> 's \<times> error option" where
  "Walk Join tree root fn s =
     (case walk Join fn root tree s of
        (s', Failure err) \<Rightarrow> (s', Some err)
      | (s', _) \<Rightarrow> (s', None))"

text \<open>
  The function literal of \<^verbatim>\<open>findGoMod\<close>; its state is the variable \<^verbatim>\<open>goModPath\<close>.
  \<^verbatim>\<open>Walk\<close> passes a nil \<^verbatim>\<open>info\<close> only together with an error, so the last equation is
  never used (Go would panic on \<^verbatim>\<open>info.IsDir()\<close> there).
\<close>

fun findGoMod_func :: "string \<Rightarrow> string \<Rightarrow> FileInfo option \<Rightarrow> error option \<Rightarrow> string \<times> walk_ret" where
  "findGoMod_func goModPath path info (Some err) = (goModPath, Failure err)"
| "findGoMod_func goModPath path (Some info) None =
     (if \<not> IsDir info \<and> Name info = ''go.mod'' then (path, SkipDir) else (goModPath, NilErr))"
| "findGoMod_func goModPath path None None =
     (goModPath, Failure (External ''nil pointer dereference''))"

text \<open>
  \<open>tree\<close> is the file tree at \<open>dir\<close>. The result is Go's pair (path, error): the
  second listing returns \<^verbatim>\<open>goModPath, err\<close> with whatever \<^verbatim>\<open>Walk\<close> returned.
\<close>

definition findGoMod ::
  "(string \<Rightarrow> string \<Rightarrow> string) \<Rightarrow> node \<Rightarrow> string \<Rightarrow> string \<times> error option" where
  "findGoMod Join tree dir =
     (case Walk Join tree dir findGoMod_func [] of
        (goModPath, err) \<Rightarrow>
          if goModPath = [] then ([], Some (GoModNotFoundIn dir)) else (goModPath, err))"

text \<open>The first listing (lines 73 to 92) looks at the error of \<^verbatim>\<open>Walk\<close> first.\<close>

definition findGoMod_1 ::
  "(string \<Rightarrow> string \<Rightarrow> string) \<Rightarrow> node \<Rightarrow> string \<Rightarrow> string \<times> error option" where
  "findGoMod_1 Join tree dir =
     (case Walk Join tree dir findGoMod_func [] of
        (goModPath, err) \<Rightarrow>
          (case err of
             Some e \<Rightarrow> ([], Some e)
           | None \<Rightarrow> if goModPath = [] then ([], Some GoModNotFound) else (goModPath, None)))"

text \<open>
  To observe the order of a walk, \<open>logging fn\<close> is the callback \<open>fn\<close> that also appends
  every path it is called on to a log.
\<close>

definition logging ::
  "('s \<Rightarrow> string \<Rightarrow> FileInfo option \<Rightarrow> error option \<Rightarrow> 's \<times> walk_ret) \<Rightarrow>
   ('s \<times> string list) \<Rightarrow> string \<Rightarrow> FileInfo option \<Rightarrow> error option \<Rightarrow> ('s \<times> string list) \<times> walk_ret" where
  "logging fn sl path info err =
     (case fn (fst sl) path info err of (s', r) \<Rightarrow> ((s', snd sl @ [path]), r))"

subsection \<open>Workspace manager: \<^verbatim>\<open>createTempDir\<close> and \<^verbatim>\<open>cleanupTempDir\<close>\<close>

text \<open>
  The temporary-directory root \<^verbatim>\<open>os.TempDir()\<close> is given by its path \<open>TempDir\<close>, the
  list \<open>entries\<close> of what it holds, and \<open>fault\<close>: the error with which the operating
  system refuses to create an entry there (permission denied, read-only or full file
  system), if it does. The functions of package \<^verbatim>\<open>os\<close> return the new list of entries.
\<close>

definition names :: "node list \<Rightarrow> string list" where
  "names entries = map (\<lambda>e. Name (lstat e)) entries"

definition ErrExist :: error where
  "ErrExist = External ''file exists''"

definition ErrNotDir :: error where
  "ErrNotDir = External ''not a directory''"

text \<open>\<^verbatim>\<open>os.Mkdir\<close> of the entry \<open>name\<close> of the root.\<close>

definition Mkdir :: "node list \<Rightarrow> error option \<Rightarrow> string \<Rightarrow> error + node list" where
  "Mkdir entries fault name =
     (if name \<in> set (names entries) then Inl ErrExist
      else case fault of Some err \<Rightarrow> Inl err | None \<Rightarrow> Inr (entries @ [Dir name []]))"

text \<open>
  \<^verbatim>\<open>os.MkdirAll\<close> of the entry \<open>name\<close> of the root, which exists: an entry that is a
  directory already is success, one that is not a directory is an error, one that cannot
  be examined makes the \<^verbatim>\<open>Mkdir\<close> fail.
\<close>

definition MkdirAll :: "node list \<Rightarrow> error option \<Rightarrow> string \<Rightarrow> error + node list" where
  "MkdirAll entries fault name =
     (case find (\<lambda>e. Name (lstat e) = name) entries of
        None \<Rightarrow> Mkdir entries fault name
      | Some (NoStat n err) \<Rightarrow> Inl ErrExist
      | Some e \<Rightarrow> if IsDir (lstat e) then Inr entries else Inl ErrNotDir)"

text \<open>
  The loop of \<^verbatim>\<open>os.MkdirTemp(dir, pattern)\<close> for a pattern with no \<^verbatim>\<open>*\<close> and no path
  separator, in the root \<open>dir\<close>: the name is the pattern followed by \<^verbatim>\<open>nextRandom()\<close>,
  tried again while the name exists, at most 10000 times; the path returned is
  \<^verbatim>\<open>joinPath(dir, pattern)\<close> followed by the same random string. \<open>nextRandom k\<close> is the
  string the call number \<open>k\<close> returns.
\<close>

function MkdirTemp ::
  "string \<Rightarrow> string \<Rightarrow> node list \<Rightarrow> error option \<Rightarrow> (nat \<Rightarrow> string) \<Rightarrow> string \<Rightarrow> nat \<Rightarrow>
   error + string \<times> node list" where
  "MkdirTemp GOOS dir entries fault nextRandom pattern try =
     (case Mkdir entries fault (pattern @ nextRandom try) of
        Inr entries' \<Rightarrow> Inr (joinPath GOOS dir pattern @ nextRandom try, entries')
      | Inl err \<Rightarrow>
          if err = ErrExist
          then (if try + 1 < 10000
                then MkdirTemp GOOS dir entries fault nextRandom pattern (try + 1)
                else Inl ErrExist)
          else Inl err)"
  by pat_completeness auto
termination
  by (relation "measure (\<lambda>(GOOS, dir, entries, fault, nextRandom, pattern, try). 10000 - try)") auto

text \<open>
  \<open>createTempDir\<close> returns the path with the new entries of the root. On Windows the
  path is \<^verbatim>\<open>filepath.Join(os.TempDir(), "go-dep-analysis")\<close>, which names the entry
  \<^verbatim>\<open>go-dep-analysis\<close> of the root.
\<close>

definition createTempDir ::
  "string \<Rightarrow> (string \<Rightarrow> string \<Rightarrow> string) \<Rightarrow> string \<Rightarrow> node list \<Rightarrow> error option \<Rightarrow>
   (nat \<Rightarrow> string) \<Rightarrow> error + string \<times> node list" where
  "createTempDir GOOS Join TempDir entries fault nextRandom =
     (if GOOS = ''windows''
      then (case MkdirAll entries fault ''go-dep-analysis'' of
              Inl err \<Rightarrow> Inl (CreateTempDirFailed err)
            | Inr entries' \<Rightarrow> Inr (Join TempDir ''go-dep-analysis'', entries'))
      else MkdirTemp GOOS TempDir entries fault nextRandom ''go-dep-analysis'' 0)"

text \<open>\<open>is_directory entries name\<close>: the root holds a directory of that name.\<close>

definition is_directory :: "node list \<Rightarrow> string \<Rightarrow> bool" where
  "is_directory entries name =
     (case find (\<lambda>e. Name (lstat e) = name) entries of
        None \<Rightarrow> False
      | Some e \<Rightarrow> IsDir (lstat e))"

text \<open>
  What the program does that can be seen from outside, in order: text on standard output;
  \<^verbatim>\<open>log.Fatalf\<close> with its message and error, which prints and calls \<^verbatim>\<open>os.Exit(1)\<close>; a
  call of \<^verbatim>\<open>os.RemoveAll\<close>; a \<^verbatim>\<open>time.Sleep\<close> in milliseconds; the end of the process
  with its status.
\<close>

datatype event =
    Print string
  | Fatalf string error
  | Remove string
  | Sleep nat
  | Exit nat

text \<open>
  \<open>RemoveAll dir i\<close> is the error of the call number \<open>i\<close> of \<^verbatim>\<open>os.RemoveAll(dir)\<close>, if
  any. \<open>cleanup_attempts\<close> is the loop \<^verbatim>\<open>for i := 0; i < 3; i++\<close>.
\<close>

function cleanup_attempts ::
  "(string \<Rightarrow> nat \<Rightarrow> error option) \<Rightarrow> string \<Rightarrow> nat \<Rightarrow> event list \<times> error option" where
  "cleanup_attempts RemoveAll dir i =
     (if i < 3
      then (case RemoveAll dir i of
              None \<Rightarrow> ([Remove dir], None)
            | Some err \<Rightarrow>
                (case cleanup_attempts RemoveAll dir (i + 1) of
                   (evs, r) \<Rightarrow> (Remove dir # Sleep 200 # evs, r)))
      else ([], Some RemoveFailedAfter3Attempts))"
  by pat_completeness auto
termination
  by (relation "measure (\<lambda>(RemoveAll, dir, i). 3 - i)") auto

definition cleanupTempDir ::
  "string \<Rightarrow> (string \<Rightarrow> nat \<Rightarrow> error option) \<Rightarrow> string \<Rightarrow> event list \<times> error option" where
  "cleanupTempDir GOOS RemoveAll dir =
     (if GOOS = ''windows'' then cleanup_attempts RemoveAll dir 0
      else ([Remove dir], RemoveAll dir 0))"

subsection \<open>Repository fetcher: \<^verbatim>\<open>cloneRepo\<close>\<close>

text \<open>\<open>Run cmd\<close> is the error of \<^verbatim>\<open>cmd.Run()\<close> for the command line \<open>cmd\<close>, if any.\<close>

definition cloneRepo :: "string \<Rightarrow> (string list \<Rightarrow> error option) \<Rightarrow> string \<Rightarrow> string \<Rightarrow> error option" where
  "cloneRepo GOOS Run url dir =
     (case Run (if GOOS = ''windows''
                then [''cmd'', ''/C'', ''git'', ''clone'', url, dir]
                else [''git'', ''clone'', url, dir]) of
        Some err \<Rightarrow> Some (CloneFailed err)
      | None \<Rightarrow> None)"

subsection \<open>The run: \<^verbatim>\<open>main\<close>\<close>

text \<open>
  Everything outside the program that a run depends on. \<open>env_tree\<close> is the file tree at
  the workspace after the clone.
\<close>

record world =
  Args :: "string list"
  env_GOOS :: string
  env_Join :: "string \<Rightarrow> string \<Rightarrow> string"
  env_TempDir :: string
  env_entries :: "node list"
  env_fault :: "error option"
  env_nextRandom :: "nat \<Rightarrow> string"
  env_Run :: "string list \<Rightarrow> error option"
  env_tree :: node
  env_ReadFile :: "string \<Rightarrow> error + string"
  env_Parse :: "string \<Rightarrow> string \<Rightarrow> error + modfile_File"
  env_LookPath_go :: "error option"
  env_go_list :: "string \<Rightarrow> error + (error + ModuleInfo) list"
  env_RemoveAll :: "string \<Rightarrow> nat \<Rightarrow> error option"

text \<open>
  The function that \<open>main\<close> defers after \<open>createTempDir\<close> has succeeded. Go runs a deferred
  function when the function that deferred it returns; here that ends the process, with
  status 0 unless the deferred function itself calls \<^verbatim>\<open>log.Fatalf\<close>.
\<close>

definition main_deferred :: "world \<Rightarrow> string \<Rightarrow> event list" where
  "main_deferred w tempDir =
     (case cleanupTempDir (env_GOOS w) (env_RemoveAll w) tempDir of
        (evs, Some err) \<Rightarrow> evs @ [Fatalf ''Error cleaning up temporary directory: '' err]
      | (evs, None) \<Rightarrow> evs @ [Exit 0])"

text \<open>
  \<open>main\<close> returns the events of the run. \<^verbatim>\<open>log.Fatalf\<close> is \<^verbatim>\<open>Printf\<close> followed by
  \<^verbatim>\<open>os.Exit(1)\<close>, and \<^verbatim>\<open>os.Exit\<close> ends the process at once: deferred functions are not
  run. So a branch that ends in \<open>Fatalf\<close> ends there, and only the branch in which
  \<open>main\<close> returns goes on with \<open>main_deferred\<close>.
\<close>

definition main :: "world \<Rightarrow> event list" where
  "main w =
     (if length (Args w) < 2
      then [Print (''Usage: go run main.go <git-repo-url>'' @ [LF]), Exit 1]
      else
        (case createTempDir (env_GOOS w) (env_Join w) (env_TempDir w) (env_entries w)
                (env_fault w) (env_nextRandom w) of
           Inl err \<Rightarrow> [Fatalf ''Error creating temporary directory: '' err]
         | Inr (tempDir, entries') \<Rightarrow>
             (case cloneRepo (env_GOOS w) (env_Run w) (Args w ! 1) tempDir of
                Some err \<Rightarrow> [Fatalf ''Error cloning repository: '' err]
              | None \<Rightarrow>
                  (case findGoMod (env_Join w) (env_tree w) tempDir of
                     (goMopPath, Some err) \<Rightarrow> [Fatalf ''Error finding go.mod: '' err]
                   | (goMopPath, None) \<Rightarrow>
                       (case parseGoMod (env_ReadFile w) (env_Parse w) goMopPath of
                          Inl err \<Rightarrow> [Fatalf ''Error parsing go.mod: '' err]
                        | Inr (moduleName, goVersion) \<Rightarrow>
                            (case getDependencies (env_GOOS w) (env_LookPath_go w)
                                    (env_go_list w) tempDir of
                               Inl err \<Rightarrow> [Fatalf ''Error getting dependencies: '' err]
                             | Inr deps \<Rightarrow>
                                 Print (printResults moduleName goVersion deps) #
                                 main_deferred w tempDir))))))"

text \<open>
  A run on Linux in which every step succeeds: the clone leaves one \<^verbatim>\<open>go.mod\<close> in the
  workspace \<^verbatim>\<open>/tmp/go-dep-analysis1\<close>, and the listing has one record with an update.
\<close>

definition example_world :: world where
  "example_world =
     \<lparr>Args = [''main'', ''https://example.com/foo.git''],
      env_GOOS = ''linux'',
      env_Join = Join_unix,
      env_TempDir = ''/tmp'',
      env_entries = [],
      env_fault = None,
      env_nextRandom = (\<lambda>k. ''1''),
      env_Run = (\<lambda>cmd. None),
      env_tree = Dir ''go-dep-analysis1'' [File ''go.mod''],
      env_ReadFile = (\<lambda>p. Inr ''module example.com/foo\<newline>go 1.21\<newline>''),
      env_Parse = example_Parse,
      env_LookPath_go = None,
      env_go_list = (\<lambda>dir. Inr [Inr \<lparr>Path = ''example.com/bar'', Version = ''v1.0.0'',
                       Update = Some \<lparr>UpdatePath = ''example.com/bar'', UpdateVersion = ''v1.2.0''\<rparr>\<rparr>]),
      env_RemoveAll = (\<lambda>dir i. None)\<rparr>"

section \<open>Properties\<close>

subsection \<open>Line endings\<close>

lemma crlf_version_not_LF: "\<not> prefix [LF] (crlf_version s)"
  by (cases s) auto

lemma ReplaceAll_crlf_version: "ReplaceAll (crlf_version t) [CR, LF] [LF] = t"
proof (induction t)
  case Nil
  show ?case by simp
next
  case (Cons c t)
  show ?case
  proof (cases "c = LF")
    case True
    then show ?thesis using Cons.IH by simp
  next
    case False
    have "\<not> prefix [CR, LF] (c # crlf_version t)"
      by (simp add: crlf_version_not_LF)
    then show ?thesis using False Cons.IH by simp
  qed
qed

lemma ReplaceAll_no_crlf: "\<not> has_crlf t \<Longrightarrow> ReplaceAll t [CR, LF] [LF] = t"
proof (induction t rule: has_crlf.induct)
  case (1 c d s)
  then have "\<not> (c = CR \<and> d = LF)" and "\<not> has_crlf (d # s)" by auto
  then show ?case using 1 by auto
qed simp_all

subsection \<open>Manifest parser\<close>

text \<open>
  The second listing: a manifest that can be read and parses to a file with a module
  declaration and no \<^verbatim>\<open>go\<close> directive gives the declared module path and the version
  \<^verbatim>\<open>"unknown"\<close>. The first listing panics on the same file.
\<close>

lemma parseGoMod_unknown_version:
  assumes "ReadFile goModPath = Inr data"
    and "Parse goModPath (ReplaceAll data [CR, LF] [LF]) = Inr modFile"
    and "Module modFile = Some modulePath"
    and "Go modFile = None"
  shows "parseGoMod ReadFile Parse goModPath = Inr (modulePath, ''unknown'')"
  using assms by (simp add: parseGoMod_def)

lemma parseGoMod_1_panics:
  assumes "ReadFile goModPath = Inr data"
    and "Parse goModPath data = Inr modFile"
    and "Module modFile = Some modulePath"
    and "Go modFile = None"
  shows "parseGoMod_1 ReadFile Parse goModPath
           = Panics ''invalid memory address or nil pointer dereference''"
  using assms by (simp add: parseGoMod_1_def)

text \<open>
  C4. For the manifest \<^verbatim>\<open>module example.com/foo\<close> with no \<^verbatim>\<open>go\<close> directive, the
  \<open>parseGoMod_1\<close> of the first listing panics on the nil \<^verbatim>\<open>modFile.Go\<close>, where the
  \<open>parseGoMod\<close> of the second listing returns the module path with the version
  \<^verbatim>\<open>"unknown"\<close>.
\<close>

theorem parseGoMod_1_panics_without_go_directive: 
  "parseGoMod_1 (\<lambda>p. Inr ''module example.com/foo\<newline>'') example_Parse ''/w/go.mod''
     = Panics ''invalid memory address or nil pointer dereference'' \<and>
   parseGoMod (\<lambda>p. Inr ''module example.com/foo\<newline>'') example_Parse ''/w/go.mod''
     = Inr (''example.com/foo'', ''unknown'')"
  by (simp add: parseGoMod_1_def parseGoMod_def example_Parse_def)

text \<open>
  C5. For a manifest text \<open>t\<close> with LF line endings, parsing its CRLF version gives the
  same result (the same module path and version, or the same error) as parsing \<open>t\<close>.
\<close>

theorem parseGoMod_crlf:
  "\<not> has_crlf t \<Longrightarrow>
   parseGoMod (\<lambda>p. Inr (crlf_version t)) Parse goModPath = parseGoMod (\<lambda>p. Inr t) Parse goModPath"
  by (simp add: parseGoMod_def ReplaceAll_crlf_version ReplaceAll_no_crlf)

theorem parseGoMod_crlf_witness:
  "parseGoMod (\<lambda>p. Inr (crlf_version ''module example.com/foo\<newline>go 1.21\<newline>''))
     example_Parse ''/w/go.mod'' = Inr (''example.com/foo'', ''1.21'') \<and>
   parseGoMod (\<lambda>p. Inr ''module example.com/foo\<newline>go 1.21\<newline>'')
     example_Parse ''/w/go.mod'' = Inr (''example.com/foo'', ''1.21'')"
  using parseGoMod_crlf [of "''module example.com/foo\<newline>go 1.21\<newline>''" example_Parse "''/w/go.mod''"]
  by (simp add: parseGoMod_def example_Parse_def)

text \<open>
  The second listing: a manifest that can be read and parses to a file with no module
  declaration fails with \<^verbatim>\<open>module declaration not found\<close>. The first listing fails with
  \<^verbatim>\<open>could not find go.mod\<close>.
\<close>

lemma parseGoMod_no_module:
  assumes "ReadFile goModPath = Inr data"
    and "Parse goModPath (ReplaceAll data [CR, LF] [LF]) = Inr modFile"
    and "Module modFile = None"
  shows "parseGoMod ReadFile Parse goModPath = Inl ModuleDeclarationNotFound"
  using assms by (simp add: parseGoMod_def)

lemma parseGoMod_1_no_module:
  assumes "ReadFile goModPath = Inr data"
    and "Parse goModPath data = Inr modFile"
    and "Module modFile = None"
  shows "parseGoMod_1 ReadFile Parse goModPath = Returns (Inl GoModNotFound)"
  using assms by (simp add: parseGoMod_1_def)


subsection \<open>Dependency reporter\<close>

text \<open>What the loop of the second listing keeps: the records that pass the path test,
  whether or not they have an update.\<close>

lemma decode_loop_filter:
  "decode_loop GOOS dir (map Inr ms) deps =
   Inr (deps @ filter (\<lambda>m. \<not> HasPrefix (ToSlash GOOS (Path m)) ''.'' \<and>
                            \<not> HasPrefix (ToSlash GOOS (Path m)) ''/'' \<and>
                            \<not> Contains (ToSlash GOOS (Path m)) (ToSlash GOOS dir)) ms)"
  by (induction ms arbitrary: deps) simp_all

lemma decode_loop_1_filter:
  "decode_loop_1 (map Inr ms) deps = Inr (deps @ filter (\<lambda>m. Update m \<noteq> None) ms)"
  by (induction ms arbitrary: deps) simp_all

text \<open>
  C1. On Linux, for the workspace \<^verbatim>\<open>/tmp/go-dep-analysis1\<close> and a stream of one record
  \<^verbatim>\<open>{"Path":"example.com/bar","Version":"v1.0.0"}\<close> with no update: the record does not
  meet the condition of the claim, \<open>getDependencies\<close> returns it all the same, and the
  first listing's \<open>getDependencies_1\<close> returns no record.
\<close>

theorem getDependencies_keeps_record_without_update:
  "\<not> reportable ''linux'' ''/tmp/go-dep-analysis1''
       \<lparr>Path = ''example.com/bar'', Version = ''v1.0.0'', Update = None\<rparr> \<and>
   getDependencies ''linux'' None
       (\<lambda>dir. Inr [Inr \<lparr>Path = ''example.com/bar'', Version = ''v1.0.0'', Update = None\<rparr>])
       ''/tmp/go-dep-analysis1''
     = Inr [\<lparr>Path = ''example.com/bar'', Version = ''v1.0.0'', Update = None\<rparr>] \<and>
   getDependencies_1
       (\<lambda>dir. Inr [Inr \<lparr>Path = ''example.com/bar'', Version = ''v1.0.0'', Update = None\<rparr>])
       ''/tmp/go-dep-analysis1''
     = Inr []"
  by (simp add: reportable_def getDependencies_def getDependencies_1_def ToSlash_def
      Separator_def HasPrefix_def)

text \<open>
  C10. When the listing command is found and runs, and its captured output holds no JSON
  value, \<open>getDependencies\<close> succeeds with the empty sequence.
\<close>

theorem getDependencies_empty_output:
  "LookPath_go = None \<Longrightarrow> go_list dir = Inr [] \<Longrightarrow>
   getDependencies GOOS LookPath_go go_list dir = Inr []"
  by (simp add: getDependencies_def)

theorem getDependencies_empty_output_witness:
  "getDependencies ''linux'' None (\<lambda>dir. Inr []) ''/tmp/go-dep-analysis1'' = Inr []"
  using getDependencies_empty_output [of None "\<lambda>dir. Inr []" "''/tmp/go-dep-analysis1''" "''linux''"]
  by simp

subsection \<open>Result printer\<close>

lemma print_deps_unlines: "print_deps deps = unlines (record_lines deps)"
  by (induction deps) (auto simp: unlines_def record_lines_def split: option.splits)

lemma length_record_lines:
  "length (record_lines deps) = length (filter (\<lambda>r. Update r \<noteq> None) deps)"
  by (induction deps) (auto simp: record_lines_def split: option.splits)

text \<open>
  C8. \<open>printResults\<close> writes the lines of \<open>render\<close>: the module name and the version, then
  for a non-empty sequence the header and the lines of the records with an update, and
  for the empty sequence the line \<^verbatim>\<open>All dependencies are up to date.\<close>; there are as
  many record lines as records with an update.
\<close>

theorem printResults_render:
  "printResults name toolchainVersion records = unlines (render name toolchainVersion records) \<and>
   length (record_lines records) = length (filter (\<lambda>r. Update r \<noteq> None) records)"
  by (simp add: printResults_def render_def print_deps_unlines length_record_lines)
    (simp add: unlines_def)

subsection \<open>Manifest locator\<close>

text \<open>
  C3. On Linux, in the tree \<^verbatim>\<open>/w\<close> with the two files \<^verbatim>\<open>/w/a/go.mod\<close> and
  \<^verbatim>\<open>/w/b/go.mod\<close>, the walk calls the function literal on \<^verbatim>\<open>/w/a/go.mod\<close> before
  \<^verbatim>\<open>/w/b/go.mod\<close>, and \<open>findGoMod\<close> returns \<^verbatim>\<open>/w/b/go.mod\<close>: the later match has
  replaced the first one.
\<close>

theorem findGoMod_returns_last_match:
  "Walk Join_unix (Dir ''w'' [Dir ''a'' [File ''go.mod''], Dir ''b'' [File ''go.mod'']]) ''/w''
       (logging findGoMod_func) ([], [])
     = ((''/w/b/go.mod'', [''/w'', ''/w/a'', ''/w/a/go.mod'', ''/w/b'', ''/w/b/go.mod'']), None) \<and>
   findGoMod Join_unix (Dir ''w'' [Dir ''a'' [File ''go.mod''], Dir ''b'' [File ''go.mod'']]) ''/w''
     = (''/w/b/go.mod'', None)"
  by (simp add: findGoMod_def logging_def Walk_def Join_unix_def Clean_unix_def)

text \<open>
  C7. On Linux, in the tree \<^verbatim>\<open>/w\<close> whose only entry is a directory \<^verbatim>\<open>a\<close> that cannot
  be listed (permission denied), \<open>findGoMod\<close> fails with \<^verbatim>\<open>could not find go.mod in /w\<close>
  and not with the error of the walk; the first listing's \<open>findGoMod_1\<close> fails with the
  error of the walk.
\<close>

theorem findGoMod_hides_walk_error:
  "findGoMod Join_unix (Dir ''w'' [Unreadable ''a'' (External ''permission denied'')]) ''/w''
     = ([], Some (GoModNotFoundIn ''/w'')) \<and>
   findGoMod_1 Join_unix (Dir ''w'' [Unreadable ''a'' (External ''permission denied'')]) ''/w''
     = ([], Some (External ''permission denied''))"
  by (simp add: findGoMod_def findGoMod_1_def Walk_def Join_unix_def Clean_unix_def)

subsection \<open>Workspace manager\<close>

lemma Mkdir_Inr: "Mkdir entries fault name = Inr entries' \<Longrightarrow>
   name \<notin> set (names entries) \<and> fault = None \<and> entries' = entries @ [Dir name []]"
  by (auto simp: Mkdir_def split: if_splits option.splits)

lemma Mkdir_Inl: "Mkdir entries fault name = Inl err \<Longrightarrow>
   (\<exists>e. fault = Some e) \<or> name \<in> set (names entries)"
  by (auto simp: Mkdir_def split: if_splits option.splits)

lemma MkdirTemp_Inr:
  "MkdirTemp GOOS dir entries fault nextRandom pattern n = Inr (path, entries') \<Longrightarrow>
   \<exists>k. n \<le> k \<and> (k = n \<or> k < 10000) \<and>
       (\<forall>j. n \<le> j \<and> j < k \<longrightarrow> pattern @ nextRandom j \<in> set (names entries)) \<and>
       path = joinPath GOOS dir pattern @ nextRandom k \<and>
       pattern @ nextRandom k \<notin> set (names entries) \<and>
       fault = None \<and>
       entries' = entries @ [Dir (pattern @ nextRandom k) []]"
proof (induction GOOS dir entries fault nextRandom pattern n rule: MkdirTemp.induct)
  case (1 GOOS dir entries fault nextRandom pattern n)
  show ?case
  proof (cases "Mkdir entries fault (pattern @ nextRandom n)")
    case (Inr es)
    with "1.prems" have "path = joinPath GOOS dir pattern @ nextRandom n" and "entries' = es"
      by (simp_all add: MkdirTemp.simps [of GOOS dir entries fault nextRandom pattern n])
    with Mkdir_Inr [OF Inr] have
      "n \<le> n \<and> (n = n \<or> n < 10000) \<and>
       (\<forall>j. n \<le> j \<and> j < n \<longrightarrow> pattern @ nextRandom j \<in> set (names entries)) \<and>
       path = joinPath GOOS dir pattern @ nextRandom n \<and>
       pattern @ nextRandom n \<notin> set (names entries) \<and>
       fault = None \<and>
       entries' = entries @ [Dir (pattern @ nextRandom n) []]"
      by auto
    then show ?thesis by (rule exI)
  next
    case (Inl err)
    with "1.prems" have rec: "err = ErrExist" "n + 1 < 10000"
      "MkdirTemp GOOS dir entries fault nextRandom pattern (n + 1) = Inr (path, entries')"
      by (simp_all add: MkdirTemp.simps [of GOOS dir entries fault nextRandom pattern n] split: if_splits)
    from "1.IH" [OF Inl rec(1) rec(2) rec(3)] obtain k where k:
      "n + 1 \<le> k" "k = n + 1 \<or> k < 10000"
      "\<forall>j. n + 1 \<le> j \<and> j < k \<longrightarrow> pattern @ nextRandom j \<in> set (names entries)"
      "path = joinPath GOOS dir pattern @ nextRandom k"
      "pattern @ nextRandom k \<notin> set (names entries)"
      "fault = None"
      "entries' = entries @ [Dir (pattern @ nextRandom k) []]"
      by blast
    from Inl k(6) have taken: "pattern @ nextRandom n \<in> set (names entries)"
      by (auto dest: Mkdir_Inl)
    have before: "pattern @ nextRandom j \<in> set (names entries)" if "n \<le> j \<and> j < k" for j
    proof (cases "j = n")
      case True
      with taken show ?thesis by simp
    next
      case False
      with that have "n + 1 \<le> j \<and> j < k" by arith
      with k(3) show ?thesis by blast
    qed
    from k(1) k(2) rec(2) have "n \<le> k" and "k = n \<or> k < 10000" by arith+
    with before k(4-7) have
      "n \<le> k \<and> (k = n \<or> k < 10000) \<and>
       (\<forall>j. n \<le> j \<and> j < k \<longrightarrow> pattern @ nextRandom j \<in> set (names entries)) \<and>
       path = joinPath GOOS dir pattern @ nextRandom k \<and>
       pattern @ nextRandom k \<notin> set (names entries) \<and>
       fault = None \<and>
       entries' = entries @ [Dir (pattern @ nextRandom k) []]"
      by blast
    then show ?thesis by (rule exI)
  qed
qed

lemma find_name_None:
  "find (\<lambda>e. Name (lstat e) = name) entries = None \<Longrightarrow> name \<notin> set (names entries)"
  by (auto simp: find_None_iff names_def)

lemma find_name_Some:
  "find (\<lambda>e. Name (lstat e) = name) entries = Some e \<Longrightarrow> name \<in> set (names entries)"
  by (auto simp: find_Some_iff names_def)

lemma find_append_new:
  "find (\<lambda>e. Name (lstat e) = name) entries = None \<Longrightarrow>
   find (\<lambda>e. Name (lstat e) = name) (entries @ [Dir name []]) = Some (Dir name [])"
  by (induction entries) (auto split: if_splits)

lemma MkdirAll_Inr:
  assumes "MkdirAll entries fault name = Inr entries'"
  shows "is_directory entries' name \<and>
         (is_directory entries name \<and> entries' = entries \<or>
          name \<notin> set (names entries) \<and> fault = None \<and> entries' = entries @ [Dir name []])"
proof (cases "find (\<lambda>e. Name (lstat e) = name) entries")
  case None
  with assms have mk: "Mkdir entries fault name = Inr entries'"
    by (simp add: MkdirAll_def)
  from Mkdir_Inr [OF mk] None show ?thesis
    by (simp add: is_directory_def find_append_new)
next
  case (Some e)
  with assms have "IsDir (lstat e)" and "entries' = entries"
    by (cases e; simp add: MkdirAll_def split: if_splits)+
  with Some show ?thesis
    by (simp add: is_directory_def)
qed

lemma MkdirAll_Inl:
  assumes "MkdirAll entries fault name = Inl err"
  shows "\<not> is_directory entries name \<and> ((\<exists>e. fault = Some e) \<or> name \<in> set (names entries))"
proof (cases "find (\<lambda>e. Name (lstat e) = name) entries")
  case None
  with assms have "Mkdir entries fault name = Inl err"
    by (simp add: MkdirAll_def)
  from Mkdir_Inl [OF this] None show ?thesis
    by (simp add: is_directory_def)
next
  case (Some e)
  with assms have "\<not> IsDir (lstat e)"
    by (cases e; simp add: MkdirAll_def split: if_splits)
  with Some find_name_Some [OF Some] show ?thesis
    by (simp add: is_directory_def)
qed


lemma MkdirTemp_Inl:
  "MkdirTemp GOOS dir entries fault nextRandom pattern n = Inl err \<Longrightarrow>
   (\<exists>e. fault = Some e) \<or>
   (\<forall>k. n \<le> k \<and> k < 10000 \<longrightarrow> pattern @ nextRandom k \<in> set (names entries))"
proof (induction GOOS dir entries fault nextRandom pattern n rule: MkdirTemp.induct)
  case (1 GOOS dir entries fault nextRandom pattern n)
  show ?case
  proof (cases "\<exists>e. fault = Some e")
    case True
    then show ?thesis by simp
  next
    case False
    then have nofault: "fault = None" by simp
    show ?thesis
    proof (cases "pattern @ nextRandom n \<in> set (names entries)")
      case False
      with nofault "1.prems" show ?thesis
        by (simp add: MkdirTemp.simps [of GOOS dir entries fault nextRandom pattern n] Mkdir_def)
    next
      case True
      then have mk: "Mkdir entries fault (pattern @ nextRandom n) = Inl ErrExist"
        by (simp add: Mkdir_def)
      show ?thesis
      proof (cases "n + 1 < 10000")
        case False
        have "pattern @ nextRandom k \<in> set (names entries)" if "n \<le> k \<and> k < 10000" for k
        proof -
          from that False have "k = n" by arith
          with True show ?thesis by simp
        qed
        then show ?thesis by blast
      next
        case more: True
        with mk "1.prems"
        have "MkdirTemp GOOS dir entries fault nextRandom pattern (n + 1) = Inl err"
          by (simp add: MkdirTemp.simps [of GOOS dir entries fault nextRandom pattern n])
        from "1.IH" [OF mk refl more this] nofault
        have later: "\<forall>k. n + 1 \<le> k \<and> k < 10000 \<longrightarrow> pattern @ nextRandom k \<in> set (names entries)"
          by simp
        have "pattern @ nextRandom k \<in> set (names entries)" if "n \<le> k \<and> k < 10000" for k
        proof (cases "k = n")
          case True
          with \<open>pattern @ nextRandom n \<in> set (names entries)\<close> show ?thesis by simp
        next
          case False
          with that have "n + 1 \<le> k \<and> k < 10000" by arith
          with later show ?thesis by blast
        qed
        then show ?thesis by blast
      qed
    qed
  qed
qed

text \<open>
  C9. When \<open>createTempDir\<close> succeeds, then on every platform but Windows the operating
  system did not refuse, the path is the temporary-directory root joined with the first
  of the names \<^verbatim>\<open>go-dep-analysis\<close> plus random string that was not in use, and that entry
  is a new empty directory afterwards; on Windows the path is the fixed entry
  \<^verbatim>\<open>go-dep-analysis\<close> of the root, which is a directory afterwards: the one that was
  there, or a new one when the name was free and the system did not refuse.
  When \<open>createTempDir\<close> fails, the directory could not be created: off Windows the system
  refused or all of the 10000 names tried were in use; on Windows the error is the wrapped
  one, no such directory was there, and the system refused or the name is taken by
  something that is not a directory.
\<close>

theorem createTempDir_acquire:
  "case createTempDir GOOS Join TempDir entries fault nextRandom of
     Inr (path, entries') \<Rightarrow>
       if GOOS = ''windows''
       then path = Join TempDir ''go-dep-analysis'' \<and>
            is_directory entries' ''go-dep-analysis'' \<and>
            (is_directory entries ''go-dep-analysis'' \<and> entries' = entries \<or>
             ''go-dep-analysis'' \<notin> set (names entries) \<and> fault = None \<and>
             entries' = entries @ [Dir ''go-dep-analysis'' []])
       else (\<exists>k < 10000.
               (\<forall>j < k. ''go-dep-analysis'' @ nextRandom j \<in> set (names entries)) \<and>
               path = joinPath GOOS TempDir ''go-dep-analysis'' @ nextRandom k \<and>
               ''go-dep-analysis'' @ nextRandom k \<notin> set (names entries) \<and>
               fault = None \<and>
               entries' = entries @ [Dir (''go-dep-analysis'' @ nextRandom k) []])
   | Inl err \<Rightarrow>
       if GOOS = ''windows''
       then (\<exists>cause. err = CreateTempDirFailed cause) \<and>
            \<not> is_directory entries ''go-dep-analysis'' \<and>
            ((\<exists>e. fault = Some e) \<or> ''go-dep-analysis'' \<in> set (names entries))
       else (\<exists>e. fault = Some e) \<or>
            (\<forall>k < 10000. ''go-dep-analysis'' @ nextRandom k \<in> set (names entries))"
proof (cases "createTempDir GOOS Join TempDir entries fault nextRandom")
  case (Inl err)
  show ?thesis
  proof (cases "GOOS = ''windows''")
    case True
    with Inl obtain cause where cause: "err = CreateTempDirFailed cause"
      and "MkdirAll entries fault ''go-dep-analysis'' = Inl cause"
      by (auto simp: createTempDir_def split: sum.splits)
    from MkdirAll_Inl [OF this(2)] cause Inl True show ?thesis
      by simp
  next
    case False
    with Inl have "MkdirTemp GOOS TempDir entries fault nextRandom ''go-dep-analysis'' 0 = Inl err"
      by (simp add: createTempDir_def)
    from MkdirTemp_Inl [OF this] Inl False show ?thesis
      by simp
  qed
next
  case (Inr r)
  obtain path entries' where r: "r = (path, entries')" by (cases r)
  show ?thesis
  proof (cases "GOOS = ''windows''")
    case True
    with Inr r have "MkdirAll entries fault ''go-dep-analysis'' = Inr entries'"
      and "path = Join TempDir ''go-dep-analysis''"
      by (auto simp: createTempDir_def split: sum.splits)
    with MkdirAll_Inr [of entries fault "''go-dep-analysis''" entries'] Inr r True
    show ?thesis by simp
  next
    case False
    with Inr r have "MkdirTemp GOOS TempDir entries fault nextRandom ''go-dep-analysis'' 0 = Inr (path, entries')"
      by (simp add: createTempDir_def)
    from MkdirTemp_Inr [OF this] obtain k where k:
      "k = 0 \<or> k < 10000"
      "\<forall>j. 0 \<le> j \<and> j < k \<longrightarrow> ''go-dep-analysis'' @ nextRandom j \<in> set (names entries)"
      "path = joinPath GOOS TempDir ''go-dep-analysis'' @ nextRandom k"
      "''go-dep-analysis'' @ nextRandom k \<notin> set (names entries)"
      "fault = None"
      "entries' = entries @ [Dir (''go-dep-analysis'' @ nextRandom k) []]"
      by blast
    from k(1) have "k < 10000" by arith
    with k(2-6) have
      "\<exists>k < 10000.
         (\<forall>j < k. ''go-dep-analysis'' @ nextRandom j \<in> set (names entries)) \<and>
         path = joinPath GOOS TempDir ''go-dep-analysis'' @ nextRandom k \<and>
         ''go-dep-analysis'' @ nextRandom k \<notin> set (names entries) \<and>
         fault = None \<and>
         entries' = entries @ [Dir (''go-dep-analysis'' @ nextRandom k) []]"
      by auto
    with Inr r False show ?thesis by simp
  qed
qed

text \<open>
  Examples: on Linux with the root \<^verbatim>\<open>/tmp/\<close>, where the first name is in use; on
  Linux with a root that refuses new entries; on Windows with the root \<^verbatim>\<open>Temp\<close> of drive \<^verbatim>\<open>C:\<close>,
  for which \<^verbatim>\<open>filepath.Join\<close> puts one backslash between the root and the name, where the
  directory is there already, and where it is not and the system refuses.
\<close>

theorem createTempDir_acquire_witness:
  "createTempDir ''linux'' Join_unix ''/tmp/'' [Dir ''go-dep-analysis1'' [File ''old'']] None
       (\<lambda>k. if k = 0 then ''1'' else ''2'')
     = Inr (''/tmp/go-dep-analysis2'',
            [Dir ''go-dep-analysis1'' [File ''old''], Dir ''go-dep-analysis2'' []]) \<and>
   createTempDir ''linux'' Join_unix ''/tmp'' [] (Some (External ''permission denied'')) (\<lambda>k. ''1'')
     = Inl (External ''permission denied'') \<and>
   createTempDir ''windows'' (\<lambda>dir name. dir @ [CHR 0x5C] @ name) (''C:'' @ [CHR 0x5C] @ ''Temp'')
       [Dir ''go-dep-analysis'' [File ''old'']] None (\<lambda>k. ''1'')
     = Inr (''C:'' @ [CHR 0x5C] @ ''Temp'' @ [CHR 0x5C] @ ''go-dep-analysis'',
            [Dir ''go-dep-analysis'' [File ''old'']]) \<and>
   createTempDir ''windows'' (\<lambda>dir name. dir @ [CHR 0x5C] @ name) (''C:'' @ [CHR 0x5C] @ ''Temp'')
       [] (Some (External ''Access is denied.'')) (\<lambda>k. ''1'')
     = Inl (CreateTempDirFailed (External ''Access is denied.''))"
  using createTempDir_acquire [where GOOS = "''linux''" and Join = Join_unix and TempDir = "''/tmp/''"
      and entries = "[Dir ''go-dep-analysis1'' [File ''old'']]" and fault = None
      and nextRandom = "\<lambda>k. if k = 0 then ''1'' else ''2''"]
  by (simp add: createTempDir_def MkdirAll_def Mkdir_def names_def ErrExist_def joinPath_def
      IsPathSeparator_def Separator_def
      MkdirTemp.simps [of _ _ _ _ _ _ 0] MkdirTemp.simps [of _ _ _ _ _ _ 1])

subsection \<open>The run\<close>

text \<open>A run removes the workspace only on the path through \<open>printResults\<close>, where
  \<open>main\<close> returns.\<close>

lemma main_release_only_on_completion:
  assumes "Remove d \<in> set (main w)"
  shows "\<exists>moduleName goVersion deps tempDir.
      main w = Print (printResults moduleName goVersion deps) # main_deferred w tempDir"
proof -
  from assms have args: "\<not> length (Args w) < 2"
    by (auto simp: main_def)
  from assms args obtain tempDir entries' where
    acq: "createTempDir (env_GOOS w) (env_Join w) (env_TempDir w) (env_entries w)
            (env_fault w) (env_nextRandom w) = Inr (tempDir, entries')"
    by (cases "createTempDir (env_GOOS w) (env_Join w) (env_TempDir w) (env_entries w)
            (env_fault w) (env_nextRandom w)") (auto simp: main_def)
  from assms args acq have clone: "cloneRepo (env_GOOS w) (env_Run w) (Args w ! 1) tempDir = None"
    by (cases "cloneRepo (env_GOOS w) (env_Run w) (Args w ! 1) tempDir") (auto simp: main_def)
  from assms args acq clone obtain goMopPath where
    loc: "findGoMod (env_Join w) (env_tree w) tempDir = (goMopPath, None)"
    by (cases "findGoMod (env_Join w) (env_tree w) tempDir")
       (auto simp: main_def split: option.splits)
  from assms args acq clone loc obtain moduleName goVersion where
    prs: "parseGoMod (env_ReadFile w) (env_Parse w) goMopPath = Inr (moduleName, goVersion)"
    by (cases "parseGoMod (env_ReadFile w) (env_Parse w) goMopPath") (auto simp: main_def)
  from assms args acq clone loc prs obtain deps where
    rep: "getDependencies (env_GOOS w) (env_LookPath_go w) (env_go_list w) tempDir = Inr deps"
    by (cases "getDependencies (env_GOOS w) (env_LookPath_go w) (env_go_list w) tempDir")
       (auto simp: main_def)
  from args acq clone loc prs rep
  have "main w = Print (printResults moduleName goVersion deps) # main_deferred w tempDir"
    by (simp add: main_def)
  then show ?thesis by blast
qed


text \<open>
  C2. In the run \<open>example_world\<close>, where every step succeeds, the workspace
  \<^verbatim>\<open>/tmp/go-dep-analysis1\<close> is removed before the process ends. In the same run with a
  \<^verbatim>\<open>git clone\<close> that fails, the workspace is created just the same, and the run is the
  single \<^verbatim>\<open>log.Fatalf\<close> of the clone error: no \<^verbatim>\<open>os.RemoveAll\<close> is called.
\<close>

theorem main_clone_failure_skips_cleanup:
  "main example_world =
     [Print (''Module: example.com/foo'' @ [LF] @ ''Go Module Version: 1.21'' @ [LF] @
             ''Dependencies that can be updated:'' @ [LF] @
             ''- example.com/bar: v1.0.0 -> v1.2.0'' @ [LF]),
      Remove ''/tmp/go-dep-analysis1'', Exit 0] \<and>
   createTempDir ''linux'' Join_unix ''/tmp'' [] None (\<lambda>k. ''1'')
     = Inr (''/tmp/go-dep-analysis1'', [Dir ''go-dep-analysis1'' []]) \<and>
   main (example_world\<lparr>env_Run := (\<lambda>cmd. Some (External ''exit status 128''))\<rparr>)
     = [Fatalf ''Error cloning repository: '' (CloneFailed (External ''exit status 128''))]"
  by (simp add: main_def example_world_def createTempDir_def Mkdir_def names_def joinPath_def
      IsPathSeparator_def Separator_def cloneRepo_def findGoMod_def Walk_def Join_unix_def
      Clean_unix_def parseGoMod_def example_Parse_def getDependencies_def ToSlash_def
      HasPrefix_def printResults_def main_deferred_def cleanupTempDir_def Let_def)

end
